theory Spec2Isabelle
  imports Main
begin

section \<open>Errors, attributes and telemetry events\<close>

text \<open>
  A Go \<open>error\<close> value is either an error with a message or the value that
  \<open>errors.Join\<close> builds around the errors it was given.
\<close>

datatype error = Err string | JoinError "error list"

definition newline :: char where
  "newline = CHR 0x0A"

fun join_lines :: "string list \<Rightarrow> string" where
  "join_lines [] = []"
| "join_lines [s] = s"
| "join_lines (s # ss) = s @ newline # join_lines ss"

text \<open>\<open>err.Error()\<close>: a joined error prints its parts one per line.\<close>

fun error_text :: "error \<Rightarrow> string" where
  "error_text (Err s) = s"
| "error_text (JoinError es) = join_lines (map error_text es)"

text \<open>
  \<open>errors.Join(errs...)\<close> drops the nil errors; it returns nil when none is left and
  otherwise one error wrapping the others, in order.
\<close>

definition errors_Join :: "error option list \<Rightarrow> error option" where
  "errors_Join errs =
     (let es = List.map_filter (\<lambda>e. e) errs
      in if es = [] then None else Some (JoinError es))"

datatype attr_value = INT64 int | STRING string

datatype KeyValue = KeyValue (Key: string) (Val: attr_value)

definition attribute_Int :: "string \<Rightarrow> int \<Rightarrow> KeyValue" where
  "attribute_Int k v = KeyValue k (INT64 v)"

definition attribute_String :: "string \<Rightarrow> string \<Rightarrow> KeyValue" where
  "attribute_String k v = KeyValue k (STRING v)"

text \<open>
  A span is known by its name and by the span that was active when it was started.
  A \<open>context.Context\<close> is modelled by the one thing the handlers read from it: the
  span it carries, if any.
\<close>

datatype Span = Span (span_name: string) (span_parent: "Span option")

type_synonym Context = "Span option"

datatype Int64Counter =
  Int64Counter (instr_name: string) (instr_description: string) (instr_unit: string)

text \<open>
  Everything a handler does to the outside world, in the order it does it: the calls
  on the tracer, the logger bridge and the counter, the string handed to the response
  writer, and the lines printed through the standard \<open>log\<close> package.
\<close>

datatype event =
    SpanStart Span
  | SpanSetAttributes Span "KeyValue list"
  | SpanEnd Span
  | LogInfo Context string "(string \<times> int) list"
  | CounterAdd Int64Counter Context int "KeyValue list"
  | WriteString string
  | StdLog string

section \<open>Requests and response writers\<close>

record Request =
  Method :: string
  URL_Path :: string
  RawQuery :: string
  path_values :: "(string \<times> string) list"
  req_ctx :: Context

text \<open>\<open>r.PathValue(name)\<close>: the value matched for the wildcard, or the empty string.\<close>

definition PathValue :: "Request \<Rightarrow> string \<Rightarrow> string" where
  "PathValue r name = (case map_of (path_values r) name of None \<Rightarrow> [] | Some v \<Rightarrow> v)"

text \<open>
  The response writer holds the status line once it is written and the body bytes
  accepted so far. \<open>broken\<close> is the state of the connection behind it: when it is
  \<open>Some e\<close> every write fails with \<open>e\<close> and delivers nothing.
\<close>

record ResponseWriter =
  status :: "nat option"
  body :: string
  broken :: "error option"

text \<open>
  \<open>io.WriteString(w, s)\<close>. The first successful write sends the header with status
  200 when the handler has not set one.
\<close>

definition io_WriteString :: "ResponseWriter \<Rightarrow> string \<Rightarrow> ResponseWriter \<times> error option" where
  "io_WriteString w s =
     (case broken w of
        Some e \<Rightarrow> (w, Some e)
      | None \<Rightarrow>
          (w\<lparr>status := (case status w of None \<Rightarrow> Some 200 | Some c \<Rightarrow> Some c),
             body := body w @ s\<rparr>, None))"

section \<open>Library functions used by the handlers\<close>

text \<open>
  \<open>rand.Intn(n)\<close> panics for \<open>n \<le> 0\<close> and otherwise returns a value of \<open>[0, n)\<close>
  computed from the generator's next raw draw, which is an input of the model.
\<close>

definition rand_Intn :: "int \<Rightarrow> nat \<Rightarrow> string + int" where
  "rand_Intn n raw =
     (if n \<le> 0 then Inl ''invalid argument to Intn'' else Inr (int raw mod n))"

definition digit :: "nat \<Rightarrow> char" where
  "digit d = ''0123456789'' ! d"

fun fmt_nat :: "nat \<Rightarrow> string" where
  "fmt_nat n = (if n < 10 then [digit n] else fmt_nat (n div 10) @ [digit (n mod 10)])"

declare fmt_nat.simps [simp del]

text \<open>\<open>strconv.Itoa\<close>: the decimal digits, with a minus sign for a negative number.\<close>

definition Itoa :: "int \<Rightarrow> string" where
  "Itoa i = (if i < 0 then CHR ''-'' # fmt_nat (nat (- i)) else fmt_nat (nat i))"

definition tracer_Start :: "Context \<Rightarrow> string \<Rightarrow> Context \<times> Span" where
  "tracer_Start ctx nm = (let span = Span nm ctx in (Some span, span))"

section \<open>The handlers\<close>

datatype outcome = Returned | Panicked string

type_synonym Handler =
  "nat \<Rightarrow> ResponseWriter \<Rightarrow> Request \<Rightarrow> event list \<Rightarrow> outcome \<times> ResponseWriter \<times> event list"

text \<open>
  \<open>init\<close> asks the meter for the counter and panics when the meter reports an error;
  \<open>rollCnt\<close> is the instrument it stores.
\<close>

definition rollCnt :: Int64Counter where
  "rollCnt = Int64Counter ''dice.rolls'' ''The total number of dice rolls'' ''{roll}''"

definition init :: "error option \<Rightarrow> error + Int64Counter" where
  "init err = (case err of Some e \<Rightarrow> Inl e | None \<Rightarrow> Inr rollCnt)"

definition hello :: Handler where
  "hello raw w r t = (Returned, w, t @ [StdLog (''Hola, Mundo!'' @ [newline])])"

text \<open>
  \<open>dice\<close>. The trace \<open>t\<close> is threaded through the calls in source order. The deferred
  \<open>span.End()\<close> runs last on every way out, the panic of \<open>rand.Intn\<close> included.
\<close>

definition dice :: Handler where
  "dice raw w r t =
     (let (ctx, span) = tracer_Start (req_ctx r) ''roll'';
          t1 = t @ [SpanStart span]
      in case rand_Intn 6 raw of
           Inl p \<Rightarrow> (Panicked p, w, t1 @ [SpanEnd span])
         | Inr k \<Rightarrow>
             (let roll = 1 + k;
                  player = PathValue r ''player'';
                  msg = (if player \<noteq> [] then player @ '' is rolling the dice''
                         else ''Anonymous player is rolling the dice'');
                  t2 = t1 @ [LogInfo ctx msg [(''result'', roll)]];
                  rollValueAttr = attribute_Int ''roll.value'' roll;
                  t3 = t2 @ [SpanSetAttributes span [rollValueAttr]];
                  t4 = t3 @ [CounterAdd rollCnt ctx 1 [rollValueAttr]];
                  resp = Itoa roll @ [newline];
                  (w', err) = io_WriteString w resp;
                  t5 = t4 @ [WriteString resp];
                  t6 = (case err of
                          Some e \<Rightarrow> t5 @ [StdLog (''Escritura fallida: '' @ error_text e @ [newline])]
                        | None \<Rightarrow> t5)
              in (Returned, w', t6 @ [SpanEnd span])))"

text \<open>The events one execution of \<open>dice\<close> adds, and the strings it hands to the writer.\<close>

definition dice_events :: "nat \<Rightarrow> ResponseWriter \<Rightarrow> Request \<Rightarrow> event list" where
  "dice_events raw w r = snd (snd (dice raw w r []))"

fun written :: "event list \<Rightarrow> string list" where
  "written [] = []"
| "written (WriteString s # es) = s # written es"
| "written (e # es) = written es"

fun log_messages :: "event list \<Rightarrow> string list" where
  "log_messages [] = []"
| "log_messages (LogInfo ctx msg args # es) = msg # log_messages es"
| "log_messages (e # es) = log_messages es"

fun span_starts :: "event list \<Rightarrow> Span list" where
  "span_starts [] = []"
| "span_starts (SpanStart s # es) = s # span_starts es"
| "span_starts (e # es) = span_starts es"

fun span_ends :: "event list \<Rightarrow> Span list" where
  "span_ends [] = []"
| "span_ends (SpanEnd s # es) = s # span_ends es"
| "span_ends (e # es) = span_ends es"

fun span_attributes :: "event list \<Rightarrow> (Span \<times> KeyValue list) list" where
  "span_attributes [] = []"
| "span_attributes (SpanSetAttributes s kvs # es) = (s, kvs) # span_attributes es"
| "span_attributes (e # es) = span_attributes es"

fun log_fields :: "event list \<Rightarrow> (string \<times> int) list list" where
  "log_fields [] = []"
| "log_fields (LogInfo ctx msg args # es) = args # log_fields es"
| "log_fields (e # es) = log_fields es"

text \<open>A response writer on a healthy connection, before anything is written.\<close>

definition fresh_writer :: ResponseWriter where
  "fresh_writer = \<lparr>status = None, body = [], broken = None\<rparr>"

section \<open>Routing, instrumentation and the server\<close>

text \<open>
  The patterns registered in this program have no wildcard. Such a pattern matches a
  path exactly, or every path below it when it ends in a slash; of the patterns that
  match, the longest is the most specific and wins. A pattern without wildcards binds
  no path value, so the request reaches the handler as it came in.
\<close>

type_synonym ServeMux = "(string \<times> Handler) list"

definition pattern_matches :: "string \<Rightarrow> string \<Rightarrow> bool" where
  "pattern_matches pat path =
     (if pat \<noteq> [] \<and> last pat = CHR ''/'' then take (length pat) path = pat else pat = path)"

fun findHandler :: "ServeMux \<Rightarrow> string \<Rightarrow> (string \<times> Handler) option" where
  "findHandler [] path = None"
| "findHandler ((pat, h) # rest) path =
     (case findHandler rest path of
        None \<Rightarrow> if pattern_matches pat path then Some (pat, h) else None
      | Some (pat', h') \<Rightarrow>
          if pattern_matches pat path \<and> length pat' < length pat then Some (pat, h)
          else Some (pat', h'))"

definition NotFound :: Handler where
  "NotFound raw w r t =
     (case broken w of
        Some e \<Rightarrow> (Returned, w, t @ [WriteString (''404 page not found'' @ [newline])])
      | None \<Rightarrow>
          (Returned, w\<lparr>status := Some 404, body := body w @ ''404 page not found'' @ [newline]\<rparr>,
           t @ [WriteString (''404 page not found'' @ [newline])]))"

definition ServeMux_ServeHTTP :: "ServeMux \<Rightarrow> Handler" where
  "ServeMux_ServeHTTP mux raw w r t =
     (case findHandler mux (URL_Path r) of
        None \<Rightarrow> NotFound raw w r t
      | Some (pat, h) \<Rightarrow> h raw w r t)"

text \<open>
  \<open>otelhttp.WithRouteTag\<close> puts the route on the span of the request's context and
  calls the handler; \<open>otelhttp.NewHandler\<close> runs the handler inside a span named after
  the operation, which the request's context then carries.
\<close>

definition WithRouteTag :: "string \<Rightarrow> Handler \<Rightarrow> Handler" where
  "WithRouteTag route h raw w r t =
     (case req_ctx r of
        None \<Rightarrow> h raw w r t
      | Some span \<Rightarrow> h raw w r (t @ [SpanSetAttributes span [attribute_String ''http.route'' route]]))"

definition NewHandler :: "Handler \<Rightarrow> string \<Rightarrow> Handler" where
  "NewHandler h operation raw w r t =
     (let (ctx, span) = tracer_Start (req_ctx r) operation;
          (out, w', t') = h raw w (r\<lparr>req_ctx := ctx\<rparr>) (t @ [SpanStart span])
      in (out, w', t' @ [SpanEnd span]))"

definition newHTTPHandler :: Handler where
  "newHTTPHandler =
     (let mux = [(''/'', WithRouteTag ''/'' hello), (''/dice'', WithRouteTag ''/dice'' dice)]
      in NewHandler (ServeMux_ServeHTTP mux) ''/'')"

text \<open>
  The function literal that \<open>run\<close> registers for \<open>/\<close> with \<open>http.HandleFunc\<close>, that
  is, on the default mux. \<open>fmt.Fprint\<close>'s error is dropped.
\<close>

definition run_root :: Handler where
  "run_root raw w r t =
     (let (w', err) = io_WriteString w ''Hola, Mundo!''
      in (Returned, w', t @ [WriteString ''Hola, Mundo!'']))"

definition DefaultServeMux :: Handler where
  "DefaultServeMux = ServeMux_ServeHTTP [(''/'', run_root)]"

record Server =
  Addr :: string
  ReadTimeout :: nat
  WriteTimeout :: nat
  srv_Handler :: "Handler option"

text \<open>The server value built in \<open>run\<close>; the timeouts are in seconds.\<close>

definition run_srv :: Server where
  "run_srv = \<lparr>Addr = '':8080'', ReadTimeout = 1, WriteTimeout = 10,
              srv_Handler = Some newHTTPHandler\<rparr>"

text \<open>
  A server dispatches to its \<open>Handler\<close> and falls back on the default mux only when
  the field is nil. A request read from a connection carries no path value and no span.
  When the handler returns without having written a header the server sends status 200.
\<close>

definition serverHandler :: "Server \<Rightarrow> Handler" where
  "serverHandler srv = (case srv_Handler srv of None \<Rightarrow> DefaultServeMux | Some h \<Rightarrow> h)"

definition readRequest :: "string \<Rightarrow> string \<Rightarrow> string \<Rightarrow> Request" where
  "readRequest m path query =
     \<lparr>Method = m, URL_Path = path, RawQuery = query, path_values = [], req_ctx = None\<rparr>"

definition finishRequest :: "outcome \<Rightarrow> ResponseWriter \<Rightarrow> ResponseWriter" where
  "finishRequest out w =
     (case out of
        Panicked p \<Rightarrow> w
      | Returned \<Rightarrow>
          (if broken w = None \<and> status w = None then w\<lparr>status := Some 200\<rparr> else w))"

definition serve :: "Server \<Rightarrow> nat \<Rightarrow> error option \<Rightarrow> Request \<Rightarrow> outcome \<times> ResponseWriter \<times> event list" where
  "serve srv raw conn r =
     (let w = \<lparr>status = None, body = [], broken = conn\<rparr>;
          (out, w', t) = serverHandler srv raw w r []
      in (out, finishRequest out w', t))"

section \<open>Concurrent requests\<close>

text \<open>
  Requests are served concurrently and every telemetry call is safe for concurrent
  use, so the events of several handlers reach the providers in some interleaving:
  each event of the merged trace is the next event of one of the handlers.
\<close>

fun interleaved :: "'a list list \<Rightarrow> 'a list \<Rightarrow> bool" where
  "interleaved ts [] = list_all (\<lambda>t. t = []) ts"
| "interleaved ts (e # es) =
     list_ex (\<lambda>i. ts ! i \<noteq> [] \<and> hd (ts ! i) = e \<and> interleaved (ts[i := tl (ts ! i)]) es)
       [0..<length ts]"

text \<open>The value of a counter after a trace: the sum of the increments added to it.\<close>

fun counter_sum :: "string \<Rightarrow> event list \<Rightarrow> int" where
  "counter_sum nm [] = 0"
| "counter_sum nm (CounterAdd c ctx k attrs # es) =
     (if instr_name c = nm then k else 0) + counter_sum nm es"
| "counter_sum nm (e # es) = counter_sum nm es"

fun counter_adds :: "event list \<Rightarrow> event list" where
  "counter_adds [] = []"
| "counter_adds (CounterAdd c ctx k attrs # es) = CounterAdd c ctx k attrs # counter_adds es"
| "counter_adds (e # es) = counter_adds es"

section \<open>The process: \<open>run\<close> and \<open>main\<close>\<close>

text \<open>
  What the process meets while it runs. \<open>setupOTelSDK\<close> is defined outside the file
  at hand, so its answer is an input: an error, or a shutdown function, given by the
  error that function returns when it is called. \<open>arrives_first\<close> is the case the
  \<open>select\<close> statement takes, and \<open>srv_Shutdown\<close> is what \<open>srv.Shutdown\<close> returns.
\<close>

datatype select_case = ServerError error | Interrupted

record Env =
  setupOTelSDK :: "error + error option"
  arrives_first :: select_case
  srv_Shutdown :: "error option"

datatype proc_event =
    NotifyContext
  | SetupOTelSDK
  | LogFatal string
  | HandleFunc string
  | ListenAndServe string
  | Stop
  | SrvShutdown
  | OtelShutdown

datatype run_result = Exits nat | Returns "error option"

text \<open>
  \<open>run\<close>. \<open>log.Fatalf\<close> prints and calls \<open>os.Exit(1)\<close>, so no deferred call runs after
  it. On a return the deferred calls run last-registered first: the function that joins
  the telemetry shutdown's error into the result, then \<open>stop\<close>.
\<close>

definition run :: "Env \<Rightarrow> run_result \<times> proc_event list" where
  "run env =
     (let t0 = [NotifyContext, SetupOTelSDK]
      in case setupOTelSDK env of
           Inl e \<Rightarrow>
             (Exits 1, t0 @ [LogFatal (''Fallo al configurar OpenTelemetry SDK: '' @ error_text e)])
         | Inr otelShutdown \<Rightarrow>
             (let t1 = t0 @ [HandleFunc ''/'', ListenAndServe (Addr run_srv)];
                  (err, t2) = (case arrives_first env of
                                 ServerError e \<Rightarrow> (Some e, t1)
                               | Interrupted \<Rightarrow> (srv_Shutdown env, t1 @ [Stop, SrvShutdown]));
                  err' = errors_Join [err, otelShutdown]
              in (Returns err', t2 @ [OtelShutdown, Stop])))"

definition main :: "Env \<Rightarrow> nat \<times> proc_event list" where
  "main env =
     (case run env of
        (Exits c, t) \<Rightarrow> (c, t)
      | (Returns None, t) \<Rightarrow> (0, t)
      | (Returns (Some err), t) \<Rightarrow> (1, t @ [LogFatal (''Error: '' @ error_text err)]))"

text \<open>\<open>precedes a b t\<close>: \<open>a\<close> occurs in \<open>t\<close> before the first \<open>b\<close>.\<close>

definition precedes :: "'a \<Rightarrow> 'a \<Rightarrow> 'a list \<Rightarrow> bool" where
  "precedes a b t = (a \<in> set (takeWhile (\<lambda>x. x \<noteq> b) t))"

text \<open>
  Three runs of the process: the listener fails (the port is taken), an interrupt
  arrives while the server is serving, and the telemetry setup fails.
\<close>

definition env_fault :: Env where
  "env_fault = \<lparr>setupOTelSDK = Inr None,
      arrives_first = ServerError (Err ''listen tcp :8080: bind: address already in use''),
      srv_Shutdown = None\<rparr>"

definition env_interrupt :: Env where
  "env_interrupt = \<lparr>setupOTelSDK = Inr (Some (Err ''exporter: flush failed'')),
      arrives_first = Interrupted, srv_Shutdown = None\<rparr>"

definition env_no_otel :: Env where
  "env_no_otel = \<lparr>setupOTelSDK = Inl (Err ''exporter unreachable''),
      arrives_first = Interrupted, srv_Shutdown = None\<rparr>"

section \<open>Properties of the dice handler\<close>

lemma rand_Intn_6: "rand_Intn 6 raw = Inr (int raw mod 6)"
  by (simp add: rand_Intn_def)

lemma roll_cases:
  "1 + int raw mod 6 \<in> {1, 2, 3, 4, 5, 6}"
proof -
  have "0 \<le> int raw mod 6" "int raw mod 6 < 6" by simp_all
  then show ?thesis by (simp; arith)
qed

lemma Itoa_roll:
  "Itoa (1 + int raw mod 6) \<in> {''1'', ''2'', ''3'', ''4'', ''5'', ''6''}"
proof -
  have "1 + int raw mod 6 \<in> {1, 2, 3, 4, 5, 6}" by (rule roll_cases)
  then show ?thesis
    by (auto simp add: Itoa_def fmt_nat.simps digit_def)
qed

lemma roll_range: "1 \<le> 1 + int raw mod 6 \<and> 1 + int raw mod 6 \<le> 6"
  using roll_cases [of raw] by auto

lemma Itoa_roll_shape:
  "hd (Itoa (1 + int raw mod 6)) \<noteq> CHR ''0'' \<and> newline \<notin> set (Itoa (1 + int raw mod 6))"
  using Itoa_roll [of raw] by (auto simp add: newline_def)

text \<open>
  Symbolic execution of \<open>dice\<close>: it never panics, it hands the writer one string, and
  it adds the same events in the same order whatever the request, with one more log
  line when the write fails.
\<close>

lemma dice_result:
  "dice raw w r t =
     (Returned, fst (io_WriteString w (Itoa (1 + int raw mod 6) @ [newline])),
      t @ [SpanStart (Span ''roll'' (req_ctx r)),
           LogInfo (Some (Span ''roll'' (req_ctx r)))
             (if PathValue r ''player'' \<noteq> [] then PathValue r ''player'' @ '' is rolling the dice''
              else ''Anonymous player is rolling the dice'')
             [(''result'', 1 + int raw mod 6)],
           SpanSetAttributes (Span ''roll'' (req_ctx r))
             [KeyValue ''roll.value'' (INT64 (1 + int raw mod 6))],
           CounterAdd rollCnt (Some (Span ''roll'' (req_ctx r))) 1
             [KeyValue ''roll.value'' (INT64 (1 + int raw mod 6))],
           WriteString (Itoa (1 + int raw mod 6) @ [newline])]
        @ (case broken w of
             Some e \<Rightarrow> [StdLog (''Escritura fallida: '' @ error_text e @ [newline])]
           | None \<Rightarrow> [])
        @ [SpanEnd (Span ''roll'' (req_ctx r))])"
  by (simp add: dice_def rand_Intn_6 tracer_Start_def Let_def attribute_Int_def
      io_WriteString_def split: option.splits prod.splits)

lemma dice_events_eq:
  "dice_events raw w r =
     [SpanStart (Span ''roll'' (req_ctx r)),
      LogInfo (Some (Span ''roll'' (req_ctx r)))
        (if PathValue r ''player'' \<noteq> [] then PathValue r ''player'' @ '' is rolling the dice''
         else ''Anonymous player is rolling the dice'')
        [(''result'', 1 + int raw mod 6)],
      SpanSetAttributes (Span ''roll'' (req_ctx r))
        [KeyValue ''roll.value'' (INT64 (1 + int raw mod 6))],
      CounterAdd rollCnt (Some (Span ''roll'' (req_ctx r))) 1
        [KeyValue ''roll.value'' (INT64 (1 + int raw mod 6))],
      WriteString (Itoa (1 + int raw mod 6) @ [newline])]
     @ (case broken w of
          Some e \<Rightarrow> [StdLog (''Escritura fallida: '' @ error_text e @ [newline])]
        | None \<Rightarrow> [])
     @ [SpanEnd (Span ''roll'' (req_ctx r))]"
  by (simp add: dice_events_def dice_result)

lemma dice_trace: "snd (snd (dice raw w r t)) = t @ dice_events raw w r"
  by (simp add: dice_result dice_events_eq)

lemma written_dice: "written (dice_events raw w r) = [Itoa (1 + int raw mod 6) @ [newline]]"
  by (simp add: dice_events_eq split: option.splits)

text \<open>
  C1. Whatever the request, the writer and the generator's draw, \<open>dice\<close> returns
  normally and hands the response writer exactly one string: the decimal digits of an
  integer between 1 and 6, with no leading zero, followed by one newline and nothing
  else. On a connection that accepts the write, this string is what the response body
  gains.
\<close>

theorem dice_response_body:
  "\<exists>n. 1 \<le> n \<and> n \<le> 6
     \<and> written (dice_events raw w r) = [Itoa n @ [newline]]
     \<and> Itoa n \<in> {''1'', ''2'', ''3'', ''4'', ''5'', ''6''}
     \<and> hd (Itoa n) \<noteq> CHR ''0''
     \<and> newline \<notin> set (Itoa n)
     \<and> fst (dice raw w r t) = Returned
     \<and> (broken w = None \<longrightarrow> body (fst (snd (dice raw w r t))) = body w @ Itoa n @ [newline])"
proof (intro exI [of _ "1 + int raw mod 6"] conjI)
  show "1 \<le> 1 + int raw mod 6" "1 + int raw mod 6 \<le> 6"
    using roll_range [of raw] by simp_all
  show "written (dice_events raw w r) = [Itoa (1 + int raw mod 6) @ [newline]]"
    by (rule written_dice)
  show "Itoa (1 + int raw mod 6) \<in> {''1'', ''2'', ''3'', ''4'', ''5'', ''6''}"
    by (rule Itoa_roll)
  show "hd (Itoa (1 + int raw mod 6)) \<noteq> CHR ''0''" "newline \<notin> set (Itoa (1 + int raw mod 6))"
    using Itoa_roll_shape [of raw] by simp_all
  show "fst (dice raw w r t) = Returned"
    by (simp add: dice_result)
  show "broken w = None \<longrightarrow>
      body (fst (snd (dice raw w r t))) = body w @ Itoa (1 + int raw mod 6) @ [newline]"
    by (simp add: dice_result io_WriteString_def)
qed

theorem dice_response_body_witness:
  "broken fresh_writer = None
   \<and> body (fst (snd (dice 4 fresh_writer (readRequest ''GET'' ''/dice'' []) []))) = ''5'' @ [newline]"
  using dice_response_body [of 4 fresh_writer "readRequest ''GET'' ''/dice'' []" "[]"]
  by (simp add: fresh_writer_def dice_result io_WriteString_def Itoa_def fmt_nat.simps digit_def)

text \<open>
  What \<open>dice\<close> itself does with the path value \<open>player\<close> of the request it is given:
  a non-empty value is the name in the log message, an absent or empty one gives the
  anonymous message. The handler reads nothing else of the request for the message.
\<close>

lemma dice_message_of_path_value:
  "log_messages (dice_events raw w r) =
     [if PathValue r ''player'' \<noteq> [] then PathValue r ''player'' @ '' is rolling the dice''
      else ''Anonymous player is rolling the dice'']"
  by (simp add: dice_events_eq split: option.splits)

subsection \<open>The counter under concurrent requests\<close>

lemma counter_sum_Cons: "counter_sum nm (e # es) = counter_sum nm [e] + counter_sum nm es"
  by (cases e) simp_all

lemma sum_list_map_update:
  fixes f :: "'a \<Rightarrow> int"
  shows "i < length ts \<Longrightarrow> sum_list (map f (ts[i := x])) + f (ts ! i) = sum_list (map f ts) + f x"
proof (induction ts arbitrary: i)
  case Nil
  then show ?case by simp
next
  case (Cons a ts)
  then show ?case by (cases i) (simp_all add: algebra_simps)
qed

lemma interleaved_counter_sum:
  "interleaved ts t \<Longrightarrow> counter_sum nm t = sum_list (map (counter_sum nm) ts)"
proof (induction t arbitrary: ts)
  case Nil
  then have "\<forall>x\<in>set ts. x = []" by (simp add: list_all_iff)
  then have "sum_list (map (counter_sum nm) ts) = 0" by (induction ts) simp_all
  then show ?case by simp
next
  case (Cons e es)
  then obtain i where i: "i < length ts" "ts ! i \<noteq> []" "hd (ts ! i) = e"
    and rest: "interleaved (ts[i := tl (ts ! i)]) es"
    by (auto simp add: list_ex_iff)
  from i have split: "ts ! i = e # tl (ts ! i)" by (cases "ts ! i") auto
  have "counter_sum nm (ts ! i) = counter_sum nm [e] + counter_sum nm (tl (ts ! i))"
    using counter_sum_Cons [of nm e "tl (ts ! i)"] split by simp
  moreover have "counter_sum nm es = sum_list (map (counter_sum nm) (ts[i := tl (ts ! i)]))"
    using Cons.IH [OF rest] .
  moreover have "sum_list (map (counter_sum nm) (ts[i := tl (ts ! i)])) + counter_sum nm (ts ! i)
      = sum_list (map (counter_sum nm) ts) + counter_sum nm (tl (ts ! i))"
    using i(1) by (rule sum_list_map_update)
  ultimately show ?case
    using counter_sum_Cons [of nm e es] by simp
qed

lemma counter_sum_dice: "counter_sum ''dice.rolls'' (dice_events raw w r) = 1"
  by (simp add: dice_events_eq rollCnt_def split: option.splits)

lemma sum_list_const_one:
  "(\<And>x. x \<in> set xs \<Longrightarrow> f x = (1::int)) \<Longrightarrow> sum_list (map f xs) = int (length xs)"
  by (induction xs) simp_all

text \<open>
  C4. One execution of \<open>dice\<close> adds to the counter exactly once: to \<open>dice.rolls\<close>, by
  1, with the attribute \<open>roll.value\<close> set to the value rolled, which is the value the
  response carries. When the events of any number of executions are merged in any
  interleaving, the counter's sum over the merged trace is the number of requests.
\<close>

theorem dice_counter_increment:
  "counter_adds (dice_events raw w r)
     = [CounterAdd rollCnt (Some (Span ''roll'' (req_ctx r))) 1
          [KeyValue ''roll.value'' (INT64 (1 + int raw mod 6))]]
   \<and> instr_name rollCnt = ''dice.rolls''
   \<and> written (dice_events raw w r) = [Itoa (1 + int raw mod 6) @ [newline]]
   \<and> counter_sum ''dice.rolls'' (dice_events raw w r) = 1
   \<and> (interleaved (map (\<lambda>(raw, w, r). dice_events raw w r) reqs) t
        \<longrightarrow> counter_sum ''dice.rolls'' t = int (length reqs))"
proof (intro conjI impI)
  show "counter_adds (dice_events raw w r)
     = [CounterAdd rollCnt (Some (Span ''roll'' (req_ctx r))) 1
          [KeyValue ''roll.value'' (INT64 (1 + int raw mod 6))]]"
    by (simp add: dice_events_eq split: option.splits)
  show "instr_name rollCnt = ''dice.rolls''" by (simp add: rollCnt_def)
  show "written (dice_events raw w r) = [Itoa (1 + int raw mod 6) @ [newline]]"
    by (rule written_dice)
  show "counter_sum ''dice.rolls'' (dice_events raw w r) = 1" by (rule counter_sum_dice)
next
  assume "interleaved (map (\<lambda>(raw, w, r). dice_events raw w r) reqs) t"
  then have "counter_sum ''dice.rolls'' t
      = sum_list (map (counter_sum ''dice.rolls'') (map (\<lambda>(raw, w, r). dice_events raw w r) reqs))"
    by (rule interleaved_counter_sum)
  also have "\<dots> = sum_list (map (\<lambda>q. counter_sum ''dice.rolls'' (case q of (raw, w, r) \<Rightarrow> dice_events raw w r)) reqs)"
    by (simp add: comp_def)
  also have "\<dots> = int (length reqs)"
    by (rule sum_list_const_one) (auto simp add: counter_sum_dice)
  finally show "counter_sum ''dice.rolls'' t = int (length reqs)" .
qed

theorem dice_counter_increment_witness:
  "interleaved
     (map (\<lambda>(raw, w, r). dice_events raw w r)
        [(4, fresh_writer, readRequest ''GET'' ''/dice'' []),
         (0, fresh_writer, readRequest ''GET'' ''/dice'' [])])
     [SpanStart (Span ''roll'' None), SpanStart (Span ''roll'' None),
      LogInfo (Some (Span ''roll'' None)) ''Anonymous player is rolling the dice'' [(''result'', 1)],
      SpanSetAttributes (Span ''roll'' None) [KeyValue ''roll.value'' (INT64 1)],
      LogInfo (Some (Span ''roll'' None)) ''Anonymous player is rolling the dice'' [(''result'', 5)],
      SpanSetAttributes (Span ''roll'' None) [KeyValue ''roll.value'' (INT64 5)],
      CounterAdd rollCnt (Some (Span ''roll'' None)) 1 [KeyValue ''roll.value'' (INT64 5)],
      CounterAdd rollCnt (Some (Span ''roll'' None)) 1 [KeyValue ''roll.value'' (INT64 1)],
      WriteString (''1'' @ [newline]),
      WriteString (''5'' @ [newline]),
      SpanEnd (Span ''roll'' None),
      SpanEnd (Span ''roll'' None)]
   \<and> counter_sum ''dice.rolls''
     [SpanStart (Span ''roll'' None), SpanStart (Span ''roll'' None),
      LogInfo (Some (Span ''roll'' None)) ''Anonymous player is rolling the dice'' [(''result'', 1)],
      SpanSetAttributes (Span ''roll'' None) [KeyValue ''roll.value'' (INT64 1)],
      LogInfo (Some (Span ''roll'' None)) ''Anonymous player is rolling the dice'' [(''result'', 5)],
      SpanSetAttributes (Span ''roll'' None) [KeyValue ''roll.value'' (INT64 5)],
      CounterAdd rollCnt (Some (Span ''roll'' None)) 1 [KeyValue ''roll.value'' (INT64 5)],
      CounterAdd rollCnt (Some (Span ''roll'' None)) 1 [KeyValue ''roll.value'' (INT64 1)],
      WriteString (''1'' @ [newline]),
      WriteString (''5'' @ [newline]),
      SpanEnd (Span ''roll'' None),
      SpanEnd (Span ''roll'' None)] = 2"
proof -
  let ?reqs = "[(4::nat, fresh_writer, readRequest ''GET'' ''/dice'' []),
         (0::nat, fresh_writer, readRequest ''GET'' ''/dice'' [])]"
  let ?t = "[SpanStart (Span ''roll'' None), SpanStart (Span ''roll'' None),
      LogInfo (Some (Span ''roll'' None)) ''Anonymous player is rolling the dice'' [(''result'', 1)],
      SpanSetAttributes (Span ''roll'' None) [KeyValue ''roll.value'' (INT64 1)],
      LogInfo (Some (Span ''roll'' None)) ''Anonymous player is rolling the dice'' [(''result'', 5)],
      SpanSetAttributes (Span ''roll'' None) [KeyValue ''roll.value'' (INT64 5)],
      CounterAdd rollCnt (Some (Span ''roll'' None)) 1 [KeyValue ''roll.value'' (INT64 5)],
      CounterAdd rollCnt (Some (Span ''roll'' None)) 1 [KeyValue ''roll.value'' (INT64 1)],
      WriteString (''1'' @ [newline]),
      WriteString (''5'' @ [newline]),
      SpanEnd (Span ''roll'' None),
      SpanEnd (Span ''roll'' None)]"
  have h: "interleaved (map (\<lambda>(raw, w, r). dice_events raw w r) ?reqs) ?t"
    by code_simp
  have "interleaved (map (\<lambda>(raw, w, r). dice_events raw w r) ?reqs) ?t
      \<longrightarrow> counter_sum ''dice.rolls'' ?t = int (length ?reqs)"
    using dice_counter_increment [of 0 fresh_writer "readRequest ''GET'' ''/dice'' []" ?reqs ?t]
    by (elim conjE) assumption
  then have "counter_sum ''dice.rolls'' ?t = int (length ?reqs)"
    using h by (rule mp)
  then have c: "counter_sum ''dice.rolls'' ?t = 2" by simp
  from h c show ?thesis by (rule conjI)
qed


subsection \<open>The span, the failed write and the rolled value\<close>

text \<open>
  C5. In every execution of \<open>dice\<close>, whether the write succeeds or fails, the handler
  starts one span, named \<open>roll\<close>, and ends one span, the same one; the call that ends it
  is the last thing the handler does.
\<close>

theorem dice_span_ended_once:
  "span_starts (dice_events raw w r) = [Span ''roll'' (req_ctx r)]
   \<and> span_ends (dice_events raw w r) = [Span ''roll'' (req_ctx r)]
   \<and> last (dice_events raw w r) = SpanEnd (Span ''roll'' (req_ctx r))
   \<and> snd (snd (dice raw w r t)) = t @ dice_events raw w r"
  by (simp add: dice_trace) (simp add: dice_events_eq split: option.splits)

text \<open>
  C6. When the write of the response fails with an error, \<open>dice\<close> still returns
  normally and nothing is added to the response; the log record, the span attribute and
  the counter increment were emitted before the write was attempted and stay in the
  trace; the failure is printed through the standard logger, and the span is ended
  after that.
\<close>

theorem dice_write_failure:
  "broken w = Some e \<Longrightarrow>
   dice raw w r t =
     (Returned, w,
      t @ [SpanStart (Span ''roll'' (req_ctx r)),
           LogInfo (Some (Span ''roll'' (req_ctx r)))
             (if PathValue r ''player'' \<noteq> [] then PathValue r ''player'' @ '' is rolling the dice''
              else ''Anonymous player is rolling the dice'')
             [(''result'', 1 + int raw mod 6)],
           SpanSetAttributes (Span ''roll'' (req_ctx r))
             [KeyValue ''roll.value'' (INT64 (1 + int raw mod 6))],
           CounterAdd rollCnt (Some (Span ''roll'' (req_ctx r))) 1
             [KeyValue ''roll.value'' (INT64 (1 + int raw mod 6))],
           WriteString (Itoa (1 + int raw mod 6) @ [newline]),
           StdLog (''Escritura fallida: '' @ error_text e @ [newline]),
           SpanEnd (Span ''roll'' (req_ctx r))])"
  by (simp add: dice_result io_WriteString_def)

theorem dice_write_failure_witness:
  "broken (fresh_writer\<lparr>broken := Some (Err ''write: broken pipe'')\<rparr>) = Some (Err ''write: broken pipe'')
   \<and> dice 2 (fresh_writer\<lparr>broken := Some (Err ''write: broken pipe'')\<rparr>) (readRequest ''GET'' ''/dice'' []) []
     = (Returned, \<lparr>status = None, body = [], broken = Some (Err ''write: broken pipe'')\<rparr>,
        [SpanStart (Span ''roll'' None),
         LogInfo (Some (Span ''roll'' None)) ''Anonymous player is rolling the dice'' [(''result'', 3)],
         SpanSetAttributes (Span ''roll'' None) [KeyValue ''roll.value'' (INT64 3)],
         CounterAdd rollCnt (Some (Span ''roll'' None)) 1 [KeyValue ''roll.value'' (INT64 3)],
         WriteString (''3'' @ [newline]),
         StdLog (''Escritura fallida: write: broken pipe'' @ [newline]),
         SpanEnd (Span ''roll'' None)])"
  using dice_write_failure [of "fresh_writer\<lparr>broken := Some (Err ''write: broken pipe'')\<rparr>"
      "Err ''write: broken pipe''" 2 "readRequest ''GET'' ''/dice'' []" "[]"]
  by (simp add: fresh_writer_def readRequest_def PathValue_def Itoa_def fmt_nat.simps digit_def)

text \<open>
  C10. In every execution of \<open>dice\<close> one value \<open>roll\<close>, computed from a single draw of
  the generator, is the \<open>result\<close> field of the one log record, the \<open>roll.value\<close>
  attribute set on the span, the \<open>roll.value\<close> attribute of the one counter increment,
  and the number whose decimal digits are written to the response.
\<close>

theorem dice_roll_consistent:
  "\<exists>roll. log_fields (dice_events raw w r) = [[(''result'', roll)]]
     \<and> span_attributes (dice_events raw w r)
         = [(Span ''roll'' (req_ctx r), [KeyValue ''roll.value'' (INT64 roll)])]
     \<and> counter_adds (dice_events raw w r)
         = [CounterAdd rollCnt (Some (Span ''roll'' (req_ctx r))) 1 [KeyValue ''roll.value'' (INT64 roll)]]
     \<and> written (dice_events raw w r) = [Itoa roll @ [newline]]
     \<and> roll = 1 + int raw mod 6"
  by (simp add: dice_events_eq split: option.splits)

section \<open>Properties of the served routes\<close>

text \<open>
  C3. A GET request for \<open>/\<close> served by the handler of the server that \<open>run\<close> builds is
  answered with status 200 and an empty body, not with the body \<open>Hola, Mundo!\<close>: the
  route \<open>/\<close> of that handler is \<open>hello\<close>, which only prints the greeting through the
  standard logger.
\<close>

theorem root_serves_empty_body:
  "serve run_srv raw None (readRequest ''GET'' ''/'' []) =
     (Returned, \<lparr>status = Some 200, body = [], broken = None\<rparr>,
      [SpanStart (Span ''/'' None),
       SpanSetAttributes (Span ''/'' None) [KeyValue ''http.route'' (STRING ''/'')],
       StdLog (''Hola, Mundo!'' @ [newline]),
       SpanEnd (Span ''/'' None)])
   \<and> body (fst (snd (serve run_srv raw None (readRequest ''GET'' ''/'' [])))) \<noteq> ''Hola, Mundo!''"
  by (simp add: serve_def serverHandler_def run_srv_def newHTTPHandler_def NewHandler_def
      tracer_Start_def ServeMux_ServeHTTP_def pattern_matches_def WithRouteTag_def readRequest_def
      hello_def finishRequest_def attribute_String_def Let_def)

text \<open>
  The handler that writes the greeting is the one \<open>run\<close> registers on the default mux,
  which a server consults only when its \<open>Handler\<close> field is nil.
\<close>

lemma default_mux_root:
  "serve (run_srv\<lparr>srv_Handler := None\<rparr>) raw None (readRequest ''GET'' ''/'' []) =
     (Returned, \<lparr>status = Some 200, body = ''Hola, Mundo!'', broken = None\<rparr>,
      [WriteString ''Hola, Mundo!''])"
  by (simp add: serve_def serverHandler_def run_srv_def DefaultServeMux_def
      ServeMux_ServeHTTP_def pattern_matches_def run_root_def io_WriteString_def readRequest_def
      finishRequest_def Let_def)

text \<open>
  The pattern \<open>/dice\<close> has no wildcard, so a request that reaches \<open>dice\<close> through the
  server carries no path value, whatever its query string: its log message is the
  anonymous one.
\<close>

lemma served_dice_anonymous:
  "log_messages (snd (snd (serve run_srv raw conn (readRequest m ''/dice'' query))))
     = [''Anonymous player is rolling the dice'']"
  by (simp add: serve_def serverHandler_def run_srv_def newHTTPHandler_def NewHandler_def
      tracer_Start_def ServeMux_ServeHTTP_def pattern_matches_def WithRouteTag_def readRequest_def
      dice_result PathValue_def attribute_String_def Let_def split: option.splits)

text \<open>
  C2. A request for \<open>/dice\<close> that names the player \<open>Alice\<close> in its query string is
  served by \<open>dice\<close>, but the log message is \<open>Anonymous player is rolling the dice\<close>, not
  \<open>Alice is rolling the dice\<close>: the route is registered without a wildcard \<open>player\<close>,
  so the path value that \<open>dice\<close> reads is always empty. A request for \<open>/dice/Alice\<close>
  does not reach \<open>dice\<close> at all: it falls to the route \<open>/\<close> and emits no log record.
\<close>

theorem served_dice_ignores_player:
  "log_messages (snd (snd (serve run_srv 0 None (readRequest ''GET'' ''/dice'' ''player=Alice''))))
     = [''Anonymous player is rolling the dice'']
   \<and> log_messages (snd (snd (serve run_srv 0 None (readRequest ''GET'' ''/dice'' ''player=Alice''))))
     \<noteq> [''Alice is rolling the dice'']
   \<and> PathValue (readRequest ''GET'' ''/dice'' ''player=Alice'') ''player'' = []
   \<and> log_messages (snd (snd (serve run_srv 0 None (readRequest ''GET'' ''/dice/Alice'' [])))) = []"
proof (intro conjI)
  show anon: "log_messages
      (snd (snd (serve run_srv 0 None (readRequest ''GET'' ''/dice'' ''player=Alice''))))
     = [''Anonymous player is rolling the dice'']"
    by (rule served_dice_anonymous)
  show "log_messages
      (snd (snd (serve run_srv 0 None (readRequest ''GET'' ''/dice'' ''player=Alice''))))
     \<noteq> [''Alice is rolling the dice'']"
    unfolding anon by simp
  show "PathValue (readRequest ''GET'' ''/dice'' ''player=Alice'') ''player'' = []"
    by (simp add: PathValue_def readRequest_def)
  show "log_messages (snd (snd (serve run_srv 0 None (readRequest ''GET'' ''/dice/Alice'' [])))) = []"
    by (simp add: serve_def serverHandler_def run_srv_def newHTTPHandler_def NewHandler_def
        tracer_Start_def ServeMux_ServeHTTP_def pattern_matches_def WithRouteTag_def
        readRequest_def hello_def attribute_String_def Let_def)
qed

section \<open>Properties of \<open>run\<close> and \<open>main\<close>\<close>

lemma errors_Join_pair:
  "errors_Join [a, b] =
     (case a of
        None \<Rightarrow> (case b of None \<Rightarrow> None | Some y \<Rightarrow> Some (JoinError [y]))
      | Some x \<Rightarrow> (case b of None \<Rightarrow> Some (JoinError [x]) | Some y \<Rightarrow> Some (JoinError [x, y])))"
  by (simp add: errors_Join_def List.map_filter_simps split: option.splits)

lemma run_ok:
  "setupOTelSDK env = Inr sd \<Longrightarrow>
   run env =
     (case arrives_first env of
        ServerError e \<Rightarrow>
          (Returns (errors_Join [Some e, sd]),
           [NotifyContext, SetupOTelSDK, HandleFunc ''/'', ListenAndServe '':8080'', OtelShutdown, Stop])
      | Interrupted \<Rightarrow>
          (Returns (errors_Join [srv_Shutdown env, sd]),
           [NotifyContext, SetupOTelSDK, HandleFunc ''/'', ListenAndServe '':8080'', Stop, SrvShutdown,
            OtelShutdown, Stop]))"
  by (simp add: run_def Let_def run_srv_def split: select_case.splits)

lemma run_failed_setup:
  "setupOTelSDK env = Inl e \<Longrightarrow>
   run env = (Exits 1, [NotifyContext, SetupOTelSDK,
     LogFatal (''Fallo al configurar OpenTelemetry SDK: '' @ error_text e)])"
  by (simp add: run_def)

text \<open>
  C7, as stated, fails: when the error of \<open>ListenAndServe\<close> arrives first, the
  telemetry shutdown function is invoked although \<open>srv.Shutdown\<close> was never called.
\<close>

theorem shutdown_order_counterexample:
  "OtelShutdown \<in> set (snd (run env_fault))
   \<and> SrvShutdown \<notin> set (snd (run env_fault))
   \<and> \<not> precedes SrvShutdown OtelShutdown (snd (run env_fault))"
  by (simp add: env_fault_def run_def run_srv_def precedes_def errors_Join_def)

text \<open>
  C7, amended. After a successful setup: when the interrupt arrives first,
  \<open>srv.Shutdown\<close> is called, once, before the telemetry shutdown function is invoked;
  when the error of \<open>ListenAndServe\<close> arrives first, \<open>srv.Shutdown\<close> is not called at
  all. In both cases the telemetry shutdown function is invoked exactly once and
  \<open>srv.Shutdown\<close> is never called after it.
\<close>

theorem shutdown_order:
  "setupOTelSDK env = Inr sd \<Longrightarrow>
     (case arrives_first env of
        Interrupted \<Rightarrow>
          precedes SrvShutdown OtelShutdown (snd (run env))
          \<and> length (filter (\<lambda>e. e = SrvShutdown) (snd (run env))) = 1
      | ServerError e \<Rightarrow> SrvShutdown \<notin> set (snd (run env)))
     \<and> length (filter (\<lambda>e. e = OtelShutdown) (snd (run env))) = 1
     \<and> SrvShutdown \<notin> set (dropWhile (\<lambda>e. e \<noteq> OtelShutdown) (snd (run env)))"
  by (simp add: run_ok precedes_def split: select_case.splits)

theorem shutdown_order_witness:
  "setupOTelSDK env_interrupt = Inr (Some (Err ''exporter: flush failed''))
   \<and> arrives_first env_interrupt = Interrupted
   \<and> precedes SrvShutdown OtelShutdown (snd (run env_interrupt))
   \<and> setupOTelSDK env_fault = Inr None
   \<and> SrvShutdown \<notin> set (snd (run env_fault))"
  using shutdown_order [of env_interrupt "Some (Err ''exporter: flush failed'')"]
    shutdown_order [of env_fault None]
  by (simp add: env_interrupt_def env_fault_def)

text \<open>
  C8. After a successful setup \<open>run\<close> returns \<open>errors.Join\<close> of the serving error (the
  error of \<open>ListenAndServe\<close>, or else the result of \<open>srv.Shutdown\<close>) and the result of
  the telemetry shutdown function, which is invoked exactly once whether or not serving
  ended with an error. A telemetry shutdown error is always part of the returned error,
  next to the serving error when there is one; with no error at all \<open>run\<close> returns nil.
\<close>

theorem run_joins_errors:
  "setupOTelSDK env = Inr sd \<Longrightarrow>
   fst (run env) =
     Returns (errors_Join [case arrives_first env of ServerError e \<Rightarrow> Some e
                                                  | Interrupted \<Rightarrow> srv_Shutdown env, sd])
   \<and> length (filter (\<lambda>e. e = OtelShutdown) (snd (run env))) = 1
   \<and> (case sd of
         None \<Rightarrow> True
       | Some e2 \<Rightarrow> (\<exists>es. fst (run env) = Returns (Some (JoinError es)) \<and> e2 \<in> set es))
   \<and> (case arrives_first env of
         ServerError e1 \<Rightarrow> (\<exists>es. fst (run env) = Returns (Some (JoinError es)) \<and> e1 \<in> set es)
       | Interrupted \<Rightarrow>
           (case srv_Shutdown env of
              None \<Rightarrow> fst (run env) = Returns (case sd of None \<Rightarrow> None | Some e2 \<Rightarrow> Some (JoinError [e2]))
            | Some e1 \<Rightarrow> (\<exists>es. fst (run env) = Returns (Some (JoinError es)) \<and> e1 \<in> set es)))"
  by (simp add: run_ok errors_Join_pair split: select_case.splits option.splits)

theorem run_joins_errors_witness:
  "setupOTelSDK env_interrupt = Inr (Some (Err ''exporter: flush failed''))
   \<and> fst (run env_interrupt) = Returns (Some (JoinError [Err ''exporter: flush failed'']))
   \<and> setupOTelSDK (env_fault\<lparr>setupOTelSDK := Inr (Some (Err ''exporter: flush failed''))\<rparr>)
       = Inr (Some (Err ''exporter: flush failed''))
   \<and> fst (run (env_fault\<lparr>setupOTelSDK := Inr (Some (Err ''exporter: flush failed''))\<rparr>))
       = Returns (Some (JoinError [Err ''listen tcp :8080: bind: address already in use'',
                                   Err ''exporter: flush failed'']))"
  using run_joins_errors [of env_interrupt "Some (Err ''exporter: flush failed'')"]
    run_joins_errors [of "env_fault\<lparr>setupOTelSDK := Inr (Some (Err ''exporter: flush failed''))\<rparr>"
      "Some (Err ''exporter: flush failed'')"]
  by (simp add: env_interrupt_def env_fault_def errors_Join_pair)

text \<open>
  C9. When \<open>setupOTelSDK\<close> returns an error the process logs the cause and exits with
  status 1; nothing is registered on the default mux, no server is started and the
  telemetry shutdown function is never invoked.
\<close>

theorem setup_failure_aborts:
  "setupOTelSDK env = Inl e \<Longrightarrow>
   main env = (1, [NotifyContext, SetupOTelSDK,
                   LogFatal (''Fallo al configurar OpenTelemetry SDK: '' @ error_text e)])
   \<and> fst (main env) \<noteq> 0
   \<and> HandleFunc ''/'' \<notin> set (snd (main env))
   \<and> ListenAndServe (Addr run_srv) \<notin> set (snd (main env))
   \<and> OtelShutdown \<notin> set (snd (main env))"
  by (simp add: main_def run_failed_setup)

theorem setup_failure_aborts_witness:
  "setupOTelSDK env_no_otel = Inl (Err ''exporter unreachable'')
   \<and> main env_no_otel = (1, [NotifyContext, SetupOTelSDK,
        LogFatal ''Fallo al configurar OpenTelemetry SDK: exporter unreachable''])"
  using setup_failure_aborts [of env_no_otel "Err ''exporter unreachable''"]
  by (simp add: env_no_otel_def)


end
